theory Spec2Isabelle
  imports Main
begin

section \<open>The demultiplexer of FFGLPlayer\<close>

text \<open>
  The development embeds \<^verbatim>\<open>src/demuxer/demuxer.hpp\<close> and \<^verbatim>\<open>src/demuxer/demuxer.cpp\<close>.
  The class \<^verbatim>\<open>Demuxer\<close> is a record of its seven member variables; every member
  function takes the state and returns the updated one.  The FFmpeg library the class
  calls is not part of the repository: its entry points are the fields of an
  \<open>engine\<close> record that every function receives, and everything the library owns
  (the format context, the stream table, the file position) lives in an opaque
  \<open>world\<close> that the entry points read and update.  Log statements have no effect on
  control flow or on the members and are left out.
\<close>

subsection \<open>Data\<close>

text \<open>A C pointer: \<open>None\<close> is the null pointer, \<open>Some a\<close> the address \<open>a\<close>.\<close>

type_synonym ptr = "nat option"

abbreviation nullptr :: ptr where
  "nullptr \<equiv> None"

text \<open>
  Modelled from the spec: \<^verbatim>\<open>mediadefs.hpp\<close>, which declares \<^verbatim>\<open>MediaType\<close>, is missing; the
  spec gives the media kind as one of VIDEO and AUDIO.
\<close>

datatype MediaType = VIDEO | AUDIO

text \<open>The two values of libavutil's \<^verbatim>\<open>enum AVMediaType\<close> that the class passes on.\<close>

datatype AVMediaType = AVMEDIA_TYPE_VIDEO | AVMEDIA_TYPE_AUDIO

record AVRational =
  num :: int
  den :: int

text \<open>
  Constants of the libavutil headers: the microsecond time base, the value of an
  unset timestamp (the least 64-bit integer) and the end-of-file error code
  (the negated tag of the bytes \<^verbatim>\<open>'E' 'O' 'F' ' '\<close>).
\<close>

definition AV_TIME_BASE_Q :: AVRational where
  "AV_TIME_BASE_Q = \<lparr>num = 1, den = 1000000\<rparr>"

definition AV_NOPTS_VALUE :: int where
  "AV_NOPTS_VALUE = - (2 ^ 63)"

definition AVERROR_EOF :: int where
  "AVERROR_EOF = - 541478725"

text \<open>Of a packet only the stream index is inspected; the payload is carried along.\<close>

record AVPacket =
  stream_index :: int
  payload :: "nat list"

text \<open>
  The members of \<^verbatim>\<open>class Demuxer\<close>.  Isabelle does not accept a name that ends in an
  underscore, so \<^verbatim>\<open>format_ctx_\<close> is \<open>format_ctx\<close>, and so on; \<^verbatim>\<open>type_\<close> is \<open>media_type\<close>.
  The integers are only stored and compared, never computed with, so they are \<open>int\<close>.
\<close>

record Demuxer =
  media_type :: MediaType
  format_ctx :: ptr
  video_stream :: ptr
  audio_stream :: ptr
  video_stream_index :: int
  audio_stream_index :: int
  eof_file :: bool

text \<open>
  The library, over a world \<open>'w\<close>.  A call that may change what the library owns returns
  the new world.  \<open>avformat_open_input\<close> returns its status and the pointer it leaves in
  the caller's variable; \<open>av_read_frame\<close> returns its status and the packet it filled.
  The last four fields are reads through pointers: \<^verbatim>\<open>ctx->streams[i]\<close>, \<^verbatim>\<open>ctx->duration\<close>,
  \<^verbatim>\<open>stream->duration\<close> and \<^verbatim>\<open>stream->time_base\<close>.
\<close>

record 'w engine =
  avformat_open_input :: "'w \<Rightarrow> string \<Rightarrow> int \<times> ptr \<times> 'w"
  avformat_find_stream_info :: "'w \<Rightarrow> ptr \<Rightarrow> int \<times> 'w"
  av_find_best_stream :: "'w \<Rightarrow> ptr \<Rightarrow> AVMediaType \<Rightarrow> int \<times> 'w"
  av_read_frame :: "'w \<Rightarrow> ptr \<Rightarrow> int \<times> AVPacket \<times> 'w"
  av_seek_frame :: "'w \<Rightarrow> ptr \<Rightarrow> int \<Rightarrow> int \<Rightarrow> int \<Rightarrow> int \<times> 'w"
  avformat_close_input :: "'w \<Rightarrow> ptr \<Rightarrow> 'w"
  av_rescale_q :: "int \<Rightarrow> AVRational \<Rightarrow> AVRational \<Rightarrow> int"
  streams :: "'w \<Rightarrow> ptr \<Rightarrow> int \<Rightarrow> ptr"
  ctx_duration :: "'w \<Rightarrow> ptr \<Rightarrow> int"
  stream_duration :: "'w \<Rightarrow> ptr \<Rightarrow> int"
  time_base :: "'w \<Rightarrow> ptr \<Rightarrow> AVRational"

text \<open>
  The whole state: the object, the library's world, and the number of packets that
  \<^verbatim>\<open>av_packet_alloc\<close> has handed out and \<^verbatim>\<open>av_packet_free\<close> has not taken back.
\<close>

record 'w state =
  dmx :: Demuxer
  world :: 'w
  live_packets :: nat

subsection \<open>Constructor and accessors\<close>

definition Demuxer_ctor :: "MediaType \<Rightarrow> Demuxer" where
  "Demuxer_ctor t =
     \<lparr>media_type = t, format_ctx = nullptr, video_stream = nullptr, audio_stream = nullptr,
      video_stream_index = - 1, audio_stream_index = - 1, eof_file = False\<rparr>"

definition getStreamIndex :: "Demuxer \<Rightarrow> int" where
  "getStreamIndex d = (if media_type d = VIDEO then video_stream_index d else audio_stream_index d)"

definition getAVStream :: "Demuxer \<Rightarrow> ptr" where
  "getAVStream d = (if media_type d = VIDEO then video_stream d else audio_stream d)"

definition getFormatContext :: "Demuxer \<Rightarrow> ptr" where
  "getFormatContext d = format_ctx d"

definition isEOF :: "Demuxer \<Rightarrow> bool" where
  "isEOF d = eof_file d"

subsection \<open>close\<close>

definition close :: "'w engine \<Rightarrow> 'w state \<Rightarrow> 'w state" where
  "close E s =
     (let s1 = (if format_ctx (dmx s) \<noteq> nullptr
                then s\<lparr>world := avformat_close_input E (world s) (format_ctx (dmx s)),
                       dmx := (dmx s)\<lparr>format_ctx := nullptr\<rparr>\<rparr>
                else s)
      in s1\<lparr>dmx := (dmx s1)\<lparr>video_stream := nullptr, audio_stream := nullptr,
                              video_stream_index := - 1, audio_stream_index := - 1,
                              eof_file := False\<rparr>\<rparr>)"

subsection \<open>open\<close>

text \<open>
  The two stream lookups of \<^verbatim>\<open>open\<close>, after the container was opened and probed: the
  index is stored whatever it is, the handle only when the index is not negative.
\<close>

definition find_video :: "'w engine \<Rightarrow> 'w state \<Rightarrow> 'w state" where
  "find_video E s =
     (let (i, w) = av_find_best_stream E (world s) (format_ctx (dmx s)) AVMEDIA_TYPE_VIDEO;
          s1 = s\<lparr>world := w, dmx := (dmx s)\<lparr>video_stream_index := i\<rparr>\<rparr>
      in if 0 \<le> i
         then s1\<lparr>dmx := (dmx s1)\<lparr>video_stream := streams E w (format_ctx (dmx s1)) i\<rparr>\<rparr>
         else s1)"

definition find_audio :: "'w engine \<Rightarrow> 'w state \<Rightarrow> 'w state" where
  "find_audio E s =
     (let (i, w) = av_find_best_stream E (world s) (format_ctx (dmx s)) AVMEDIA_TYPE_AUDIO;
          s1 = s\<lparr>world := w, dmx := (dmx s)\<lparr>audio_stream_index := i\<rparr>\<rparr>
      in if 0 \<le> i
         then s1\<lparr>dmx := (dmx s1)\<lparr>audio_stream := streams E w (format_ctx (dmx s1)) i\<rparr>\<rparr>
         else s1)"

text \<open>
  \<^verbatim>\<open>open\<close>.  When \<^verbatim>\<open>avformat_open_input\<close> is called the member \<^verbatim>\<open>format_ctx_\<close> is null
  (it was null, or \<^verbatim>\<open>close\<close> has just run), and the call overwrites it.
\<close>

definition "open" :: "'w engine \<Rightarrow> string \<Rightarrow> 'w state \<Rightarrow> bool \<times> 'w state" where
  "open E filename s =
     (if filename = [] then (False, s)
      else
        let s1 = (if format_ctx (dmx s) \<noteq> nullptr then close E s else s);
            (ret, p, w) = avformat_open_input E (world s1) filename;
            s2 = s1\<lparr>world := w, dmx := (dmx s1)\<lparr>format_ctx := p\<rparr>\<rparr>
        in if ret < 0 then (False, s2)
           else
             let (ret2, w2) = avformat_find_stream_info E (world s2) (format_ctx (dmx s2));
                 s3 = s2\<lparr>world := w2\<rparr>
             in if ret2 < 0 then (False, close E s3)
                else (True, find_audio E (find_video E s3)))"

subsection \<open>readPacket\<close>

text \<open>
  The three ways \<^verbatim>\<open>readPacket\<close> returns the null pointer: the context is null, no
  target stream was found, or \<^verbatim>\<open>av_read_frame\<close> returned the negative status carried
  by \<open>ReadFailed\<close> (the end of the file is \<open>ReadFailed AVERROR_EOF\<close>).
\<close>

datatype read_error = NotInitialized | NoValidStream | ReadFailed int

text \<open>The pointer that the C++ function returns.\<close>

definition returned_packet :: "read_error + AVPacket \<Rightarrow> AVPacket option" where
  "returned_packet r = (case r of Inl e \<Rightarrow> None | Inr p \<Rightarrow> Some p)"

text \<open>
  The loop \<^verbatim>\<open>while (true)\<close>.  Nothing bounds the number of packets of other streams
  that the library may deliver, so the loop is a partial function: \<open>None\<close> means that it
  runs forever.  \<^verbatim>\<open>av_packet_alloc\<close> is taken to succeed, as the source takes it.  A
  packet that it returned counts as live until \<^verbatim>\<open>av_packet_free\<close>; a packet that is
  returned to the caller stays live.
\<close>

partial_function (option) read_loop ::
  "'w engine \<Rightarrow> int \<Rightarrow> 'w state \<Rightarrow> ((read_error + AVPacket) \<times> 'w state) option" where
  "read_loop E target_stream_index s =
     (let s1 = s\<lparr>live_packets := Suc (live_packets s)\<rparr>;
          (ret, packet, w) = av_read_frame E (world s1) (format_ctx (dmx s1));
          s2 = s1\<lparr>world := w\<rparr>
      in if ret < 0
         then
           (let s3 = (if ret = AVERROR_EOF then s2\<lparr>dmx := (dmx s2)\<lparr>eof_file := True\<rparr>\<rparr> else s2)
            in Some (Inl (ReadFailed ret), s3\<lparr>live_packets := live_packets s3 - 1\<rparr>))
         else if stream_index packet = target_stream_index
         then Some (Inr packet, s2)
         else read_loop E target_stream_index (s2\<lparr>live_packets := live_packets s2 - 1\<rparr>))"

declare read_loop.simps [code]

definition readPacket ::
  "'w engine \<Rightarrow> 'w state \<Rightarrow> ((read_error + AVPacket) \<times> 'w state) option" where
  "readPacket E s =
     (if format_ctx (dmx s) = nullptr then Some (Inl NotInitialized, s)
      else
        let target_stream_index = getStreamIndex (dmx s)
        in if target_stream_index < 0 then Some (Inl NoValidStream, s)
           else read_loop E target_stream_index s)"

subsection \<open>seek\<close>

definition seek :: "'w engine \<Rightarrow> int \<Rightarrow> int \<Rightarrow> 'w state \<Rightarrow> bool \<times> 'w state" where
  "seek E timestamp flags s =
     (if format_ctx (dmx s) = nullptr then (False, s)
      else
        let idx = getStreamIndex (dmx s)
        in if idx < 0 then (False, s)
           else
             let stream = streams E (world s) (format_ctx (dmx s)) idx
             in if stream = nullptr then (False, s)
                else
                  let seek_target =
                        av_rescale_q E timestamp AV_TIME_BASE_Q (time_base E (world s) stream);
                      (ret, w) =
                        av_seek_frame E (world s) (format_ctx (dmx s)) idx seek_target flags;
                      s1 = s\<lparr>world := w\<rparr>
                  in if ret < 0 then (False, s1)
                     else (True, s1\<lparr>dmx := (dmx s1)\<lparr>eof_file := False\<rparr>\<rparr>))"

subsection \<open>getDuration\<close>

text \<open>A \<^verbatim>\<open>const\<close> member function: it reads the state and returns a value.\<close>

definition getDuration :: "'w engine \<Rightarrow> 'w state \<Rightarrow> int" where
  "getDuration E s =
     (let d = dmx s; w = world s
      in if format_ctx d = nullptr then 0
         else if ctx_duration E w (format_ctx d) \<noteq> AV_NOPTS_VALUE
         then ctx_duration E w (format_ctx d)
         else
           let target_stream = getAVStream d
           in if target_stream \<noteq> nullptr \<and> stream_duration E w target_stream \<noteq> AV_NOPTS_VALUE
              then av_rescale_q E (stream_duration E w target_stream)
                     (time_base E w target_stream) AV_TIME_BASE_Q
              else if video_stream d \<noteq> nullptr
                      \<and> stream_duration E w (video_stream d) \<noteq> AV_NOPTS_VALUE
              then av_rescale_q E (stream_duration E w (video_stream d))
                     (time_base E w (video_stream d)) AV_TIME_BASE_Q
              else if audio_stream d \<noteq> nullptr
                      \<and> stream_duration E w (audio_stream d) \<noteq> AV_NOPTS_VALUE
              then av_rescale_q E (stream_duration E w (audio_stream d))
                     (time_base E w (audio_stream d)) AV_TIME_BASE_Q
              else 0)"

subsection \<open>What the library does during a call\<close>

text \<open>
  The statements below speak about the calls that a member function makes to the
  library.  \<open>after_reads E ctx n w\<close> is the world after \<open>n\<close> calls of \<^verbatim>\<open>av_read_frame\<close>;
  \<open>read_stops\<close> says that the next call ends the loop of \<^verbatim>\<open>readPacket\<close>: it fails or it
  delivers a packet of the target stream.
\<close>

fun after_reads :: "'w engine \<Rightarrow> ptr \<Rightarrow> nat \<Rightarrow> 'w \<Rightarrow> 'w" where
  "after_reads E ctx 0 w = w"
| "after_reads E ctx (Suc n) w = after_reads E ctx n (snd (snd (av_read_frame E w ctx)))"

definition read_stops :: "'w engine \<Rightarrow> ptr \<Rightarrow> int \<Rightarrow> 'w \<Rightarrow> bool" where
  "read_stops E ctx t w =
     (let (ret, packet, w') = av_read_frame E w ctx in ret < 0 \<or> stream_index packet = t)"

text \<open>Read number \<open>n\<close>, counted from 0, is the first one that ends the loop.\<close>

definition final_read :: "'w engine \<Rightarrow> 'w state \<Rightarrow> nat \<Rightarrow> bool" where
  "final_read E s n =
     ((\<forall>k<n. \<not> read_stops E (format_ctx (dmx s)) (getStreamIndex (dmx s))
                  (after_reads E (format_ctx (dmx s)) k (world s)))
      \<and> read_stops E (format_ctx (dmx s)) (getStreamIndex (dmx s))
           (after_reads E (format_ctx (dmx s)) n (world s)))"

text \<open>The status and the packet of read number \<open>n\<close>.\<close>

definition read_status :: "'w engine \<Rightarrow> 'w state \<Rightarrow> nat \<Rightarrow> int" where
  "read_status E s n =
     fst (av_read_frame E (after_reads E (format_ctx (dmx s)) n (world s)) (format_ctx (dmx s)))"

definition read_packet :: "'w engine \<Rightarrow> 'w state \<Rightarrow> nat \<Rightarrow> AVPacket" where
  "read_packet E s n =
     fst (snd (av_read_frame E (after_reads E (format_ctx (dmx s)) n (world s))
                 (format_ctx (dmx s))))"

text \<open>What the loop returns when read number \<open>n\<close> ends it.\<close>

definition read_outcome ::
  "'w engine \<Rightarrow> int \<Rightarrow> 'w state \<Rightarrow> nat \<Rightarrow> (read_error + AVPacket) \<times> 'w state" where
  "read_outcome E t s n =
     (let (ret, packet, w) =
            av_read_frame E (after_reads E (format_ctx (dmx s)) n (world s)) (format_ctx (dmx s))
      in if ret < 0
         then (Inl (ReadFailed ret),
               s\<lparr>world := w,
                 dmx := (if ret = AVERROR_EOF then (dmx s)\<lparr>eof_file := True\<rparr> else dmx s)\<rparr>)
         else (Inr packet, s\<lparr>world := w, live_packets := Suc (live_packets s)\<rparr>))"

text \<open>
  The statuses that \<^verbatim>\<open>open\<close> receives from \<^verbatim>\<open>avformat_open_input\<close> and from
  \<^verbatim>\<open>avformat_find_stream_info\<close> for a non-empty file name: the container is opened in
  the world that \<^verbatim>\<open>open\<close> has prepared (after closing a session that was still open),
  and probed in the world and with the context that the opening left.
\<close>

definition open_world :: "'w engine \<Rightarrow> 'w state \<Rightarrow> 'w" where
  "open_world E s = world (if format_ctx (dmx s) \<noteq> nullptr then close E s else s)"

definition open_status :: "'w engine \<Rightarrow> string \<Rightarrow> 'w state \<Rightarrow> int" where
  "open_status E filename s = fst (avformat_open_input E (open_world E s) filename)"

definition probe_status :: "'w engine \<Rightarrow> string \<Rightarrow> 'w state \<Rightarrow> int" where
  "probe_status E filename s =
     (let (ret, p, w) = avformat_open_input E (open_world E s) filename
      in fst (avformat_find_stream_info E w p))"

text \<open>
  The state in which \<^verbatim>\<open>open\<close> finds itself after the two calls, when the first one
  succeeded: the new context is stored and the library has probed it.
\<close>

definition probed :: "'w engine \<Rightarrow> string \<Rightarrow> 'w state \<Rightarrow> 'w state" where
  "probed E filename s =
     (let s1 = (if format_ctx (dmx s) \<noteq> nullptr then close E s else s);
          (ret, p, w) = avformat_open_input E (world s1) filename
      in s1\<lparr>dmx := (dmx s1)\<lparr>format_ctx := p\<rparr>,
             world := snd (avformat_find_stream_info E w p)\<rparr>)"

text \<open>
  The time base of the target stream as \<^verbatim>\<open>seek\<close> reads it, and the caller's timestamp
  converted by the library from microseconds to that time base.
\<close>

definition target_time_base :: "'w engine \<Rightarrow> 'w state \<Rightarrow> AVRational" where
  "target_time_base E s =
     time_base E (world s) (streams E (world s) (format_ctx (dmx s)) (getStreamIndex (dmx s)))"

definition seek_target :: "'w engine \<Rightarrow> int \<Rightarrow> 'w state \<Rightarrow> int" where
  "seek_target E timestamp s =
     av_rescale_q E timestamp \<lparr>num = 1, den = 1000000\<rparr> (target_time_base E s)"






text \<open>
  The sources of a duration as the spec lists them.  A source is unset when its handle
  is null or its value is \<^verbatim>\<open>AV_NOPTS_VALUE\<close>; the first source that is set wins, and the
  duration is 0 when none is.
\<close>

definition container_duration :: "'w engine \<Rightarrow> 'w state \<Rightarrow> int option" where
  "container_duration E s =
     (if ctx_duration E (world s) (format_ctx (dmx s)) \<noteq> AV_NOPTS_VALUE
      then Some (ctx_duration E (world s) (format_ctx (dmx s))) else None)"

definition rescaled_duration :: "'w engine \<Rightarrow> 'w state \<Rightarrow> ptr \<Rightarrow> int option" where
  "rescaled_duration E s st =
     (if st \<noteq> nullptr \<and> stream_duration E (world s) st \<noteq> AV_NOPTS_VALUE
      then Some (av_rescale_q E (stream_duration E (world s) st) (time_base E (world s) st)
                   \<lparr>num = 1, den = 1000000\<rparr>)
      else None)"

fun first_available :: "int option list \<Rightarrow> int" where
  "first_available [] = 0"
| "first_available (None # xs) = first_available xs"
| "first_available (Some x # xs) = x"

text \<open>
  What the class relies on from the library: a successful \<^verbatim>\<open>avformat_open_input\<close>
  leaves a context in the caller's variable, and a stream index that
  \<^verbatim>\<open>av_find_best_stream\<close> returns for a context is an entry of its stream table.
\<close>

definition engine_ok :: "'w engine \<Rightarrow> bool" where
  "engine_ok E =
     ((\<forall>w f. 0 \<le> fst (avformat_open_input E w f)
              \<longrightarrow> fst (snd (avformat_open_input E w f)) \<noteq> nullptr)
      \<and> (\<forall>w p t. p \<noteq> nullptr \<and> 0 \<le> fst (av_find_best_stream E w p t)
              \<longrightarrow> streams E (snd (av_find_best_stream E w p t)) p
                     (fst (av_find_best_stream E w p t)) \<noteq> nullptr))"

text \<open>
  A handle is set exactly when its index is not negative, and no handle is set while
  there is no context.
\<close>

definition handles_consistent :: "Demuxer \<Rightarrow> bool" where
  "handles_consistent d =
     ((video_stream d \<noteq> nullptr \<longleftrightarrow> 0 \<le> video_stream_index d)
      \<and> (audio_stream d \<noteq> nullptr \<longleftrightarrow> 0 \<le> audio_stream_index d)
      \<and> (format_ctx d = nullptr \<longrightarrow> video_stream d = nullptr \<and> audio_stream d = nullptr))"

text \<open>
  The states of an object and its library that a caller can reach: construction, then
  any sequence of \<^verbatim>\<open>open\<close>, \<^verbatim>\<open>readPacket\<close>, \<^verbatim>\<open>seek\<close> and \<^verbatim>\<open>close\<close>.
\<close>

inductive reachable :: "'w engine \<Rightarrow> 'w state \<Rightarrow> bool" for E :: "'w engine" where
  reach_ctor: "reachable E \<lparr>dmx = Demuxer_ctor t, world = w, live_packets = n\<rparr>"
| reach_open: "reachable E s \<Longrightarrow> reachable E (snd (open E filename s))"
| reach_readPacket: "reachable E s \<Longrightarrow> readPacket E s = Some (r, s') \<Longrightarrow> reachable E s'"
| reach_seek: "reachable E s \<Longrightarrow> reachable E (snd (seek E timestamp flags s))"
| reach_close: "reachable E s \<Longrightarrow> reachable E (close E s)"

subsection \<open>A scripted library for concrete runs\<close>

text \<open>
  A small instance of the library, used to run the functions on concrete inputs.  Its
  world is the name of the opened file and the stream indices of the packets still to
  be read.  Every file but \<^verbatim>\<open>non_existent_file.mp4\<close> opens, with four packets that alternate
  between stream 1 and stream 0; \<^verbatim>\<open>truncated.mp4\<close> cannot be probed; \<^verbatim>\<open>video_only.mp4\<close> has
  no audio stream; \<^verbatim>\<open>no_duration.mp4\<close> has no container duration and
  \<^verbatim>\<open>negative_duration.mp4\<close> a container duration of -5 microseconds.  Timestamps are
  rescaled with the quotient rounded down.
\<close>

record demo_world =
  file_name :: string
  pending :: "int list"

definition demo_engine :: "demo_world engine" where
  "demo_engine =
     \<lparr>avformat_open_input = (\<lambda>w f.
        if f = ''non_existent_file.mp4'' then (- 2, nullptr, w)
        else (0, Some 1, \<lparr>file_name = f, pending = [1, 0, 1, 0]\<rparr>)),
      avformat_find_stream_info = (\<lambda>w p.
        if file_name w = ''truncated.mp4'' then (- 1, w) else (0, w)),
      av_find_best_stream = (\<lambda>w p t.
        (case t of
           AVMEDIA_TYPE_VIDEO \<Rightarrow> 0
         | AVMEDIA_TYPE_AUDIO \<Rightarrow> if file_name w = ''video_only.mp4'' then - 1 else 1, w)),
      av_read_frame = (\<lambda>w p.
        case pending w of
          [] \<Rightarrow> (AVERROR_EOF, \<lparr>stream_index = 0, payload = []\<rparr>, w)
        | i # r \<Rightarrow> (0, \<lparr>stream_index = i, payload = []\<rparr>, w\<lparr>pending := r\<rparr>)),
      av_seek_frame = (\<lambda>w p i t fl.
        if t < 0 then (- 1, w) else (0, w\<lparr>pending := [1, 0, 1, 0]\<rparr>)),
      avformat_close_input = (\<lambda>w p. \<lparr>file_name = [], pending = []\<rparr>),
      av_rescale_q = (\<lambda>a bq cq. (a * (num bq * den cq)) div (den bq * num cq)),
      streams = (\<lambda>w p i. if 0 \<le> i \<and> i < 2 then Some (nat i + 10) else nullptr),
      ctx_duration = (\<lambda>w p.
        if file_name w = ''no_duration.mp4'' then AV_NOPTS_VALUE
        else if file_name w = ''negative_duration.mp4'' then - 5
        else 5000000),
      stream_duration = (\<lambda>w st. 450000),
      time_base = (\<lambda>w st. \<lparr>num = 1, den = 90000\<rparr>)\<rparr>"


text \<open>A freshly constructed object of the given kind, before any file is opened.\<close>

definition demo_init :: "MediaType \<Rightarrow> demo_world state" where
  "demo_init t = \<lparr>dmx = Demuxer_ctor t, world = \<lparr>file_name = [], pending = []\<rparr>, live_packets = 0\<rparr>"

text \<open>The state after \<^verbatim>\<open>open\<close> of the given file on a fresh object.\<close>

definition demo_opened :: "MediaType \<Rightarrow> string \<Rightarrow> demo_world state" where
  "demo_opened t f = snd (open demo_engine f (demo_init t))"

text \<open>The state of an opened \<^verbatim>\<open>test_video.mp4\<close> with the given packets still to be read.\<close>

definition demo_reading :: "MediaType \<Rightarrow> int list \<Rightarrow> demo_world state" where
  "demo_reading t ps =
     (demo_opened t ''test_video.mp4'')\<lparr>world := \<lparr>file_name = ''test_video.mp4'', pending = ps\<rparr>\<rparr>"

text \<open>An opened \<^verbatim>\<open>test_video.mp4\<close> read to its end, with the end-of-file flag set.\<close>

definition demo_at_end :: "demo_world state" where
  "demo_at_end = (demo_reading VIDEO [])\<lparr>dmx := (dmx (demo_reading VIDEO []))\<lparr>eof_file := True\<rparr>\<rparr>"


section \<open>Properties\<close>

subsection \<open>The loop of readPacket\<close>

text \<open>
  One unfolding of the loop: it stops at a read that fails or delivers a packet of the
  target stream, and otherwise goes on in the world that the read left, with the
  skipped packet freed.
\<close>

lemma read_loop_stop:
  "read_stops E (format_ctx (dmx s)) t (world s) \<Longrightarrow>
   read_loop E t s = Some (read_outcome E t s 0)"
  by (subst read_loop.simps)
     (auto simp add: read_stops_def read_outcome_def Let_def split: prod.splits)

lemma read_loop_skip:
  "\<not> read_stops E (format_ctx (dmx s)) t (world s) \<Longrightarrow>
   read_loop E t s =
   read_loop E t (s\<lparr>world := snd (snd (av_read_frame E (world s) (format_ctx (dmx s))))\<rparr>)"
  by (subst read_loop.simps)
     (auto simp add: read_stops_def Let_def split: prod.splits)

lemma read_outcome_skip:
  "read_outcome E t (s\<lparr>world := snd (snd (av_read_frame E (world s) (format_ctx (dmx s))))\<rparr>) n
   = read_outcome E t s (Suc n)"
  by (simp add: read_outcome_def Let_def split: prod.splits)

lemma read_loop_returns:
  "\<forall>k<n. \<not> read_stops E (format_ctx (dmx s)) t
              (after_reads E (format_ctx (dmx s)) k (world s)) \<Longrightarrow>
   read_stops E (format_ctx (dmx s)) t (after_reads E (format_ctx (dmx s)) n (world s)) \<Longrightarrow>
   read_loop E t s = Some (read_outcome E t s n)"
proof (induction n arbitrary: s)
  case 0
  then show ?case by (simp add: read_loop_stop)
next
  case (Suc n)
  let ?s = "s\<lparr>world := snd (snd (av_read_frame E (world s) (format_ctx (dmx s))))\<rparr>"
  from Suc.prems(1) have ns: "\<not> read_stops E (format_ctx (dmx s)) t (world s)"
    by (metis after_reads.simps(1) zero_less_Suc)
  have a: "\<forall>k<n. \<not> read_stops E (format_ctx (dmx ?s)) t
                     (after_reads E (format_ctx (dmx ?s)) k (world ?s))"
    using Suc.prems(1) by (auto dest: spec [where x = "Suc k" for k])
  have b: "read_stops E (format_ctx (dmx ?s)) t
             (after_reads E (format_ctx (dmx ?s)) n (world ?s))"
    using Suc.prems(2) by simp
  have "read_loop E t ?s = Some (read_outcome E t ?s n)"
    by (rule Suc.IH [OF a b])
  then show ?case
    by (simp add: read_loop_skip [OF ns] read_outcome_skip)
qed

lemma read_loop_first_stop:
  assumes "read_loop E t s = Some x"
  shows "\<exists>n. (\<forall>k<n. \<not> read_stops E (format_ctx (dmx s)) t
                         (after_reads E (format_ctx (dmx s)) k (world s)))
            \<and> read_stops E (format_ctx (dmx s)) t
                 (after_reads E (format_ctx (dmx s)) n (world s))"
  using assms
proof (induct rule: read_loop.raw_induct [rotated 1, consumes 1, case_names step])
  case (step read_loop' E t s x)
  show ?case
  proof (cases "read_stops E (format_ctx (dmx s)) t (world s)")
    case True
    then have "(\<forall>k<(0::nat). \<not> read_stops E (format_ctx (dmx s)) t
                         (after_reads E (format_ctx (dmx s)) k (world s)))
            \<and> read_stops E (format_ctx (dmx s)) t
                 (after_reads E (format_ctx (dmx s)) 0 (world s))"
      by simp
    then show ?thesis by blast
  next
    case False
    let ?s = "s\<lparr>world := snd (snd (av_read_frame E (world s) (format_ctx (dmx s))))\<rparr>"
    from False step(2) have "read_loop' E t ?s = Some x"
      by (auto simp add: read_stops_def Let_def split: prod.splits if_splits)
    from step(1) [OF this] obtain n where
      n: "\<forall>k<n. \<not> read_stops E (format_ctx (dmx ?s)) t
                         (after_reads E (format_ctx (dmx ?s)) k (world ?s))"
         "read_stops E (format_ctx (dmx ?s)) t
                 (after_reads E (format_ctx (dmx ?s)) n (world ?s))"
      by blast
    have "\<forall>k<Suc n. \<not> read_stops E (format_ctx (dmx s)) t
                         (after_reads E (format_ctx (dmx s)) k (world s))"
    proof (intro allI impI)
      fix k assume "k < Suc n"
      show "\<not> read_stops E (format_ctx (dmx s)) t
                         (after_reads E (format_ctx (dmx s)) k (world s))"
      proof (cases k)
        case 0
        with False show ?thesis by simp
      next
        case (Suc j)
        with \<open>k < Suc n\<close> n(1) show ?thesis by simp
      qed
    qed
    moreover have "read_stops E (format_ctx (dmx s)) t
                 (after_reads E (format_ctx (dmx s)) (Suc n) (world s))"
      using n(2) by simp
    ultimately show ?thesis by blast
  qed
qed

text \<open>
  \<^verbatim>\<open>readPacket\<close> with a context and a target stream returns exactly when some read ends
  the loop, and then with the outcome of that read.
\<close>

lemma readPacket_running:
  assumes "format_ctx (dmx s) \<noteq> nullptr" and "0 \<le> getStreamIndex (dmx s)"
  shows "readPacket E s = Some x \<longleftrightarrow>
         (\<exists>n. final_read E s n \<and> x = read_outcome E (getStreamIndex (dmx s)) s n)"
proof
  assume r: "readPacket E s = Some x"
  with assms have l: "read_loop E (getStreamIndex (dmx s)) s = Some x"
    by (auto simp add: readPacket_def Let_def)
  from read_loop_first_stop [OF l] obtain n where n: "final_read E s n"
    by (auto simp add: final_read_def)
  then have "read_loop E (getStreamIndex (dmx s)) s
             = Some (read_outcome E (getStreamIndex (dmx s)) s n)"
    by (simp add: final_read_def read_loop_returns)
  with l n show "\<exists>n. final_read E s n \<and> x = read_outcome E (getStreamIndex (dmx s)) s n"
    by auto
next
  assume "\<exists>n. final_read E s n \<and> x = read_outcome E (getStreamIndex (dmx s)) s n"
  then obtain n where n: "final_read E s n" "x = read_outcome E (getStreamIndex (dmx s)) s n"
    by blast
  then have "read_loop E (getStreamIndex (dmx s)) s = Some x"
    by (simp add: final_read_def read_loop_returns)
  with assms show "readPacket E s = Some x"
    by (auto simp add: readPacket_def Let_def)
qed

lemma readPacket_final:
  assumes "format_ctx (dmx s) \<noteq> nullptr" and "0 \<le> getStreamIndex (dmx s)"
    and "final_read E s n"
  shows "readPacket E s = Some (read_outcome E (getStreamIndex (dmx s)) s n)"
  using assms(3) by (subst readPacket_running [OF assms(1,2)]) blast

lemma readPacket_not_running:
  "format_ctx (dmx s) = nullptr \<Longrightarrow> readPacket E s = Some (Inl NotInitialized, s)"
  "format_ctx (dmx s) \<noteq> nullptr \<Longrightarrow> getStreamIndex (dmx s) < 0 \<Longrightarrow>
   readPacket E s = Some (Inl NoValidStream, s)"
  by (auto simp add: readPacket_def Let_def)

lemma AVERROR_EOF_negative: "AVERROR_EOF < 0"
  by (simp add: AVERROR_EOF_def)

lemma final_read_outcome:
  assumes "final_read E s n" and "read_outcome E (getStreamIndex (dmx s)) s n = (r, s')"
  shows "(returned_packet r = None) = (read_status E s n < 0)"
    and "eof_file (dmx s') = (eof_file (dmx s) \<or> read_status E s n = AVERROR_EOF)"
    and "(dmx s')\<lparr>eof_file := eof_file (dmx s)\<rparr> = dmx s"
    and "returned_packet r = Some p \<Longrightarrow> stream_index p = getStreamIndex (dmx s') \<and> dmx s' = dmx s \<and> p = read_packet E s n"
    and "live_packets s' = live_packets s + (if returned_packet r = None then 0 else 1)"
  using assms AVERROR_EOF_negative
  by (auto simp add: final_read_def read_outcome_def read_status_def read_packet_def
        read_stops_def returned_packet_def getStreamIndex_def Let_def
      split: prod.splits if_splits)


lemma final_read_unique:
  assumes "final_read E s n" and "final_read E s m"
  shows "n = m"
proof (rule ccontr)
  assume "n \<noteq> m"
  then consider "n < m" | "m < n" by linarith
  then show False
    using assms by cases (auto simp add: final_read_def)
qed

subsection \<open>Concrete runs\<close>

lemmas demo_defs = demo_engine_def demo_init_def demo_opened_def Demuxer_ctor_def

lemma demo_opened_test_video:
  "demo_opened t ''test_video.mp4'' =
     \<lparr>dmx = \<lparr>media_type = t, format_ctx = Some 1, video_stream = Some 10,
             audio_stream = Some 11, video_stream_index = 0, audio_stream_index = 1,
             eof_file = False\<rparr>,
      world = \<lparr>file_name = ''test_video.mp4'', pending = [1, 0, 1, 0]\<rparr>,
      live_packets = 0\<rparr>"
  by (simp add: demo_defs open_def find_video_def find_audio_def Let_def)

subsection \<open>Packets of the target stream only\<close>

text \<open>
  Claim C1.  Whenever \<^verbatim>\<open>readPacket\<close> returns a packet, the packet's stream index is
  \<^verbatim>\<open>getStreamIndex()\<close>: it is the packet of the first read that delivered the target
  stream, and every read before it delivered a packet of another stream.  Those packets
  are released and not kept: the object is as it was (after a call that returns null,
  up to the end-of-file flag), and the number of live packets has grown by the returned
  packet alone.
\<close>

theorem readPacket_only_target_stream:
  assumes "readPacket E s = Some (r, s')"
  shows "(\<forall>p. returned_packet r = Some p \<longrightarrow>
            stream_index p = getStreamIndex (dmx s') \<and> dmx s' = dmx s
            \<and> (\<exists>n. final_read E s n \<and> p = read_packet E s n))
         \<and> (dmx s')\<lparr>eof_file := eof_file (dmx s)\<rparr> = dmx s
         \<and> live_packets s' = live_packets s + (if returned_packet r = None then 0 else 1)"
proof (cases "format_ctx (dmx s) \<noteq> nullptr \<and> 0 \<le> getStreamIndex (dmx s)")
  case True
  with assms obtain n where
    n: "final_read E s n" "read_outcome E (getStreamIndex (dmx s)) s n = (r, s')"
    by (auto simp add: readPacket_running)
  show ?thesis
    using final_read_outcome(3,4,5) [OF n] n(1) by blast
next
  case False
  then have "readPacket E s = Some (Inl NotInitialized, s)
             \<or> readPacket E s = Some (Inl NoValidStream, s)"
    using readPacket_not_running [of s E] by force
  with assms show ?thesis
    by (auto simp add: returned_packet_def)
qed

theorem readPacket_only_target_stream_witness:
  "readPacket demo_engine (demo_reading VIDEO [1, 0, 1])
     = Some (Inr \<lparr>stream_index = 0, payload = []\<rparr>,
             (demo_reading VIDEO [1])\<lparr>live_packets := 1\<rparr>)
   \<and> stream_index \<lparr>stream_index = 0, payload = []\<rparr>
       = getStreamIndex (dmx ((demo_reading VIDEO [1])\<lparr>live_packets := 1\<rparr>))
   \<and> live_packets ((demo_reading VIDEO [1])\<lparr>live_packets := 1\<rparr>)
       = live_packets (demo_reading VIDEO [1, 0, 1]) + 1"
proof -
  have f: "final_read demo_engine (demo_reading VIDEO [1, 0, 1]) (Suc 0)"
    by (simp add: final_read_def read_stops_def demo_reading_def demo_opened_test_video
          getStreamIndex_def demo_engine_def)
  have o: "read_outcome demo_engine 0 (demo_reading VIDEO [1, 0, 1]) (Suc 0)
           = (Inr \<lparr>stream_index = 0, payload = []\<rparr>, (demo_reading VIDEO [1])\<lparr>live_packets := 1\<rparr>)"
    by (simp add: read_outcome_def demo_reading_def demo_opened_test_video demo_engine_def)
  have i: "getStreamIndex (dmx (demo_reading VIDEO [1, 0, 1])) = 0"
    by (simp add: demo_reading_def demo_opened_test_video getStreamIndex_def)
  have c: "format_ctx (dmx (demo_reading VIDEO [1, 0, 1])) \<noteq> nullptr"
    by (simp add: demo_reading_def demo_opened_test_video)
  have h: "readPacket demo_engine (demo_reading VIDEO [1, 0, 1])
     = Some (Inr \<lparr>stream_index = 0, payload = []\<rparr>, (demo_reading VIDEO [1])\<lparr>live_packets := 1\<rparr>)"
    using readPacket_final [OF c _ f] o i by simp
  from readPacket_only_target_stream [OF h] h i show ?thesis
    by (simp add: returned_packet_def)
qed

subsection \<open>When readPacket returns null\<close>

text \<open>
  Claim C2.  \<^verbatim>\<open>readPacket\<close> returns when the object is not open, when the target stream
  index is negative, and when some read ends the loop.  When it returns, the result is
  null exactly if the object was not open, or the target index was negative, or the read
  that ended the loop reported a negative status.  The end-of-file flag is true
  afterwards exactly if it was true before or that read reported \<^verbatim>\<open>AVERROR_EOF\<close>; any
  other outcome leaves the flag as it was.
\<close>

theorem readPacket_null_cases:
  "(format_ctx (dmx s) = nullptr \<or> getStreamIndex (dmx s) < 0 \<or> (\<exists>n. final_read E s n)
      \<longrightarrow> readPacket E s \<noteq> None)
   \<and> (\<forall>r s'. readPacket E s = Some (r, s') \<longrightarrow>
         (returned_packet r = None) =
           (format_ctx (dmx s) = nullptr \<or> getStreamIndex (dmx s) < 0
            \<or> (\<exists>n. final_read E s n \<and> read_status E s n < 0))
         \<and> eof_file (dmx s') =
             (eof_file (dmx s)
              \<or> format_ctx (dmx s) \<noteq> nullptr \<and> 0 \<le> getStreamIndex (dmx s)
                \<and> (\<exists>n. final_read E s n \<and> read_status E s n = AVERROR_EOF)))"
proof (cases "format_ctx (dmx s) \<noteq> nullptr \<and> 0 \<le> getStreamIndex (dmx s)")
  case True
  then have run: "\<And>x. readPacket E s = Some x \<longleftrightarrow>
         (\<exists>n. final_read E s n \<and> x = read_outcome E (getStreamIndex (dmx s)) s n)"
    by (simp add: readPacket_running)
  have "(\<exists>n. final_read E s n) \<longrightarrow> readPacket E s \<noteq> None"
    using True by (auto simp add: readPacket_final)
  moreover have "(returned_packet r = None) = (\<exists>n. final_read E s n \<and> read_status E s n < 0)
      \<and> eof_file (dmx s')
          = (eof_file (dmx s) \<or> (\<exists>n. final_read E s n \<and> read_status E s n = AVERROR_EOF))"
    if "readPacket E s = Some (r, s')" for r s'
  proof -
    from that run obtain n where
      n: "final_read E s n" "read_outcome E (getStreamIndex (dmx s)) s n = (r, s')"
      by auto
    have u: "\<And>m. final_read E s m \<Longrightarrow> m = n"
      using n(1) by (rule final_read_unique [rotated])
    show ?thesis
      using final_read_outcome(1,2) [OF n] n(1) u by blast
  qed
  ultimately show ?thesis
    using True by auto
next
  case False
  then have "readPacket E s = Some (Inl NotInitialized, s) \<and> format_ctx (dmx s) = nullptr
             \<or> readPacket E s = Some (Inl NoValidStream, s) \<and> getStreamIndex (dmx s) < 0"
    using readPacket_not_running [of s E] by force
  with False show ?thesis
    by (auto simp add: returned_packet_def)
qed


theorem readPacket_null_cases_witness:
  "readPacket demo_engine (demo_reading VIDEO [1])
     = Some (Inl (ReadFailed AVERROR_EOF),
             (demo_reading VIDEO [])\<lparr>dmx := (dmx (demo_reading VIDEO []))\<lparr>eof_file := True\<rparr>\<rparr>)
   \<and> readPacket demo_engine (demo_reading VIDEO [1]) \<noteq> None
   \<and> (\<exists>n. final_read demo_engine (demo_reading VIDEO [1]) n
           \<and> read_status demo_engine (demo_reading VIDEO [1]) n = AVERROR_EOF)"
proof -
  have f: "final_read demo_engine (demo_reading VIDEO [1]) (Suc 0)"
    by (simp add: final_read_def read_stops_def demo_reading_def demo_opened_test_video
          getStreamIndex_def demo_engine_def AVERROR_EOF_def)
  have o: "read_outcome demo_engine 0 (demo_reading VIDEO [1]) (Suc 0)
           = (Inl (ReadFailed AVERROR_EOF),
             (demo_reading VIDEO [])\<lparr>dmx := (dmx (demo_reading VIDEO []))\<lparr>eof_file := True\<rparr>\<rparr>)"
    by (simp add: read_outcome_def demo_reading_def demo_opened_test_video demo_engine_def
          AVERROR_EOF_negative)
  have i: "getStreamIndex (dmx (demo_reading VIDEO [1])) = 0"
    by (simp add: demo_reading_def demo_opened_test_video getStreamIndex_def)
  have c: "format_ctx (dmx (demo_reading VIDEO [1])) \<noteq> nullptr"
    by (simp add: demo_reading_def demo_opened_test_video)
  have e: "\<not> eof_file (dmx (demo_reading VIDEO [1]))"
    by (simp add: demo_reading_def demo_opened_test_video)
  have h: "readPacket demo_engine (demo_reading VIDEO [1])
     = Some (Inl (ReadFailed AVERROR_EOF),
             (demo_reading VIDEO [])\<lparr>dmx := (dmx (demo_reading VIDEO []))\<lparr>eof_file := True\<rparr>\<rparr>)"
    using readPacket_final [OF c _ f] o i by simp
  from readPacket_null_cases [of "demo_reading VIDEO [1]" demo_engine] h e show ?thesis
    by simp
qed

subsection \<open>The result of open\<close>

lemma dmx_close: "dmx (close E s) = Demuxer_ctor (media_type (dmx s))"
  by (simp add: close_def Demuxer_ctor_def Let_def)




subsection \<open>seek\<close>

text \<open>\<^verbatim>\<open>seek\<close> on an object with a context, a target index and a stream behind it.\<close>

lemma seek_running:
  assumes "format_ctx (dmx s) \<noteq> nullptr" and "0 \<le> getStreamIndex (dmx s)"
    and "streams E (world s) (format_ctx (dmx s)) (getStreamIndex (dmx s)) \<noteq> nullptr"
  shows "seek E timestamp flags s =
           (let (ret, w) = av_seek_frame E (world s) (format_ctx (dmx s))
                             (getStreamIndex (dmx s)) (seek_target E timestamp s) flags
            in (0 \<le> ret,
                s\<lparr>world := w,
                  dmx := (if 0 \<le> ret then (dmx s)\<lparr>eof_file := False\<rparr> else dmx s)\<rparr>))"
  using assms
  by (auto simp add: seek_def seek_target_def target_time_base_def AV_TIME_BASE_Q_def Let_def
        split: prod.splits)

lemma seek_not_running:
  "format_ctx (dmx s) = nullptr \<or> getStreamIndex (dmx s) < 0
   \<or> streams E (world s) (format_ctx (dmx s)) (getStreamIndex (dmx s)) = nullptr \<Longrightarrow>
   seek E timestamp flags s = (False, s)"
  by (auto simp add: seek_def Let_def)

text \<open>
  Claim C4.  After a \<^verbatim>\<open>seek\<close> that returns true the end-of-file flag is false,
  whatever it was, and the other members are as before.  A \<^verbatim>\<open>seek\<close> that returns false
  leaves every member as it was; without a context or with a negative target index it
  returns false and changes nothing at all, and with both it returns false when
  \<^verbatim>\<open>av_seek_frame\<close> reports a negative status.
\<close>

theorem seek_eof_flag:
  "(fst (seek E timestamp flags s) \<longrightarrow>
      \<not> eof_file (dmx (snd (seek E timestamp flags s)))
      \<and> dmx (snd (seek E timestamp flags s)) = (dmx s)\<lparr>eof_file := False\<rparr>)
   \<and> (\<not> fst (seek E timestamp flags s) \<longrightarrow> dmx (snd (seek E timestamp flags s)) = dmx s)
   \<and> (format_ctx (dmx s) = nullptr \<or> getStreamIndex (dmx s) < 0 \<longrightarrow>
        seek E timestamp flags s = (False, s))
   \<and> (format_ctx (dmx s) \<noteq> nullptr \<and> 0 \<le> getStreamIndex (dmx s)
        \<and> fst (av_seek_frame E (world s) (format_ctx (dmx s)) (getStreamIndex (dmx s))
                 (seek_target E timestamp s) flags) < 0 \<longrightarrow>
        \<not> fst (seek E timestamp flags s))"
proof (cases "format_ctx (dmx s) = nullptr \<or> getStreamIndex (dmx s) < 0
   \<or> streams E (world s) (format_ctx (dmx s)) (getStreamIndex (dmx s)) = nullptr")
  case True
  then have "seek E timestamp flags s = (False, s)"
    by (rule seek_not_running)
  then show ?thesis by simp
next
  case False
  then have "seek E timestamp flags s =
           (let (ret, w) = av_seek_frame E (world s) (format_ctx (dmx s))
                             (getStreamIndex (dmx s)) (seek_target E timestamp s) flags
            in (0 \<le> ret,
                s\<lparr>world := w,
                  dmx := (if 0 \<le> ret then (dmx s)\<lparr>eof_file := False\<rparr> else dmx s)\<rparr>))"
    by (simp add: seek_running)
  with False show ?thesis
    by (simp add: Let_def split: prod.splits)
qed

text \<open>The opened test file, written out.\<close>

lemma demo_reading_eq:
  "demo_reading t ps =
     \<lparr>dmx = \<lparr>media_type = t, format_ctx = Some 1, video_stream = Some 10,
             audio_stream = Some 11, video_stream_index = 0, audio_stream_index = 1,
             eof_file = False\<rparr>,
      world = \<lparr>file_name = ''test_video.mp4'', pending = ps\<rparr>,
      live_packets = 0\<rparr>"
  by (simp add: demo_reading_def demo_opened_test_video)

theorem seek_eof_flag_witness:
  "eof_file (dmx demo_at_end)
   \<and> fst (seek demo_engine 2500000 0 demo_at_end)
   \<and> \<not> eof_file (dmx (snd (seek demo_engine 2500000 0 demo_at_end)))
   \<and> \<not> fst (seek demo_engine (- 2500000) 0 demo_at_end)
   \<and> dmx (snd (seek demo_engine (- 2500000) 0 demo_at_end)) = dmx demo_at_end
   \<and> format_ctx (dmx (demo_init VIDEO)) = nullptr
   \<and> seek demo_engine 2500000 0 (demo_init VIDEO) = (False, demo_init VIDEO)"
proof -
  have e: "eof_file (dmx demo_at_end)"
    by (simp add: demo_at_end_def)
  have a: "fst (seek demo_engine 2500000 0 demo_at_end)"
    by (simp add: seek_def demo_at_end_def demo_reading_eq getStreamIndex_def demo_engine_def
          AV_TIME_BASE_Q_def Let_def)
  have b: "\<not> fst (seek demo_engine (- 2500000) 0 demo_at_end)"
    by (simp add: seek_def demo_at_end_def demo_reading_eq getStreamIndex_def demo_engine_def
          AV_TIME_BASE_Q_def Let_def)
  have c: "format_ctx (dmx (demo_init VIDEO)) = nullptr"
    by (simp add: demo_defs)
  from seek_eof_flag [of demo_engine 2500000 0 demo_at_end]
    seek_eof_flag [of demo_engine "- 2500000" 0 demo_at_end]
    seek_eof_flag [of demo_engine 2500000 0 "demo_init VIDEO"] e a b c
  show ?thesis by simp
qed

subsection \<open>The timestamp that seek passes on\<close>











subsection \<open>open with an empty path\<close>

text \<open>
  Claim C5, as it is stated, fails on an object that is open: \<^verbatim>\<open>open\<close> with the
  empty path returns false before it looks at the session, so the session stays open.
\<close>

theorem open_empty_path_counterexample:
  "open demo_engine [] (demo_opened VIDEO ''test_video.mp4'')
     = (False, demo_opened VIDEO ''test_video.mp4'')
   \<and> format_ctx (dmx (snd (open demo_engine [] (demo_opened VIDEO ''test_video.mp4''))))
       \<noteq> nullptr"
  by (simp add: open_def demo_opened_test_video)

text \<open>
  Claim C5, amended.  For every state of the object, \<^verbatim>\<open>open\<close> with the empty path
  returns false and changes nothing: no member of the object, and nothing in the
  library.  The context is the one it was: an object that was closed is closed afterwards,
  and an object that was open is open.
\<close>

theorem open_empty_path_no_effect:
  "open E [] s = (False, s)
   \<and> getFormatContext (dmx (snd (open E [] s))) = getFormatContext (dmx s)"
  by (simp add: open_def)

subsection \<open>close\<close>

text \<open>
  Claim C8.  After \<^verbatim>\<open>close\<close> the context and both handles are null, both indices
  are -1 and the end-of-file flag is false, whatever the state was.  A second \<^verbatim>\<open>close\<close>
  changes nothing more, neither in the object nor in the library.
\<close>

theorem close_idempotent:
  "close E (close E s) = close E s
   \<and> format_ctx (dmx (close E s)) = nullptr
   \<and> video_stream (dmx (close E s)) = nullptr
   \<and> audio_stream (dmx (close E s)) = nullptr
   \<and> video_stream_index (dmx (close E s)) = - 1
   \<and> audio_stream_index (dmx (close E s)) = - 1
   \<and> eof_file (dmx (close E s)) = False"
  by (simp add: close_def Let_def)

subsection \<open>getDuration without a session\<close>

text \<open>
  Claim C10.  Without a context \<^verbatim>\<open>getDuration\<close> returns 0.  It is a \<^verbatim>\<open>const\<close> member
  function: it has no state to return, and the result does not depend on the library.
\<close>

theorem getDuration_closed:
  assumes "format_ctx (dmx s) = nullptr"
  shows "getDuration E s = 0"
  using assms by (simp add: getDuration_def Let_def)

theorem getDuration_closed_witness:
  "format_ctx (dmx (demo_init VIDEO)) = nullptr
   \<and> getDuration demo_engine (demo_init VIDEO) = 0
   \<and> format_ctx (dmx (close demo_engine (demo_opened AUDIO ''test_video.mp4''))) = nullptr
   \<and> getDuration demo_engine (close demo_engine (demo_opened AUDIO ''test_video.mp4'')) = 0"
proof -
  have a: "format_ctx (dmx (demo_init VIDEO)) = nullptr"
    by (simp add: demo_defs)
  have b: "format_ctx (dmx (close demo_engine (demo_opened AUDIO ''test_video.mp4''))) = nullptr"
    by (simp add: close_def Let_def)
  from getDuration_closed [OF a, of demo_engine] getDuration_closed [OF b, of demo_engine] a b
  show ?thesis by simp
qed

subsection \<open>getDuration with a session\<close>

lemma first_available_nonneg:
  "(\<forall>x\<in>set xs. \<forall>v. x = Some v \<longrightarrow> 0 \<le> v) \<Longrightarrow> 0 \<le> first_available xs"
  by (induction xs rule: first_available.induct) simp_all

text \<open>
  Claim C6, as it is stated, fails: \<^verbatim>\<open>getDuration\<close> returns the container duration
  as the library reports it, and nothing in the class keeps it from being negative.
\<close>

theorem getDuration_nonnegative_counterexample:
  "fst (open demo_engine ''negative_duration.mp4'' (demo_init VIDEO))
   \<and> format_ctx (dmx (demo_opened VIDEO ''negative_duration.mp4'')) \<noteq> nullptr
   \<and> getDuration demo_engine (demo_opened VIDEO ''negative_duration.mp4'') = - 5"
  by (simp add: demo_defs open_def find_video_def find_audio_def getDuration_def
        AV_NOPTS_VALUE_def Let_def)

text \<open>
  Claim C6, amended.  With a session, \<^verbatim>\<open>getDuration\<close> returns the first source that
  is set, in this order: the container duration; the duration of the target stream,
  rescaled by the library to microseconds; that of the video stream, rescaled; that of
  the audio stream, rescaled; and 0 when none is set.  The result is not negative when
  no source that is set is negative.
\<close>

theorem getDuration_first_available:
  assumes "format_ctx (dmx s) \<noteq> nullptr"
  shows "getDuration E s =
           first_available
             [container_duration E s,
              rescaled_duration E s (getAVStream (dmx s)),
              rescaled_duration E s (video_stream (dmx s)),
              rescaled_duration E s (audio_stream (dmx s))]
         \<and> ((\<forall>x \<in> set [container_duration E s,
                         rescaled_duration E s (getAVStream (dmx s)),
                         rescaled_duration E s (video_stream (dmx s)),
                         rescaled_duration E s (audio_stream (dmx s))].
                \<forall>v. x = Some v \<longrightarrow> 0 \<le> v)
             \<longrightarrow> 0 \<le> getDuration E s)"
proof -
  have eq: "getDuration E s =
           first_available
             [container_duration E s,
              rescaled_duration E s (getAVStream (dmx s)),
              rescaled_duration E s (video_stream (dmx s)),
              rescaled_duration E s (audio_stream (dmx s))]"
    using assms
    by (auto simp add: getDuration_def container_duration_def rescaled_duration_def
          AV_TIME_BASE_Q_def Let_def)
  show ?thesis
    unfolding eq using first_available_nonneg by blast
qed

theorem getDuration_first_available_witness:
  "format_ctx (dmx (demo_opened VIDEO ''no_duration.mp4'')) \<noteq> nullptr
   \<and> container_duration demo_engine (demo_opened VIDEO ''no_duration.mp4'') = None
   \<and> rescaled_duration demo_engine (demo_opened VIDEO ''no_duration.mp4'')
        (getAVStream (dmx (demo_opened VIDEO ''no_duration.mp4''))) = Some 5000000
   \<and> getDuration demo_engine (demo_opened VIDEO ''no_duration.mp4'') = 5000000
   \<and> 0 \<le> getDuration demo_engine (demo_opened VIDEO ''no_duration.mp4'')"
proof -
  have o: "demo_opened VIDEO ''no_duration.mp4'' =
     \<lparr>dmx = \<lparr>media_type = VIDEO, format_ctx = Some 1, video_stream = Some 10,
             audio_stream = Some 11, video_stream_index = 0, audio_stream_index = 1,
             eof_file = False\<rparr>,
      world = \<lparr>file_name = ''no_duration.mp4'', pending = [1, 0, 1, 0]\<rparr>,
      live_packets = 0\<rparr>"
    by (simp add: demo_defs open_def find_video_def find_audio_def Let_def)
  have c: "format_ctx (dmx (demo_opened VIDEO ''no_duration.mp4'')) \<noteq> nullptr"
    by (simp add: o)
  have cd: "container_duration demo_engine (demo_opened VIDEO ''no_duration.mp4'') = None"
    by (simp add: o container_duration_def demo_engine_def)
  have rd: "rescaled_duration demo_engine (demo_opened VIDEO ''no_duration.mp4'') (Some a)
              = Some 5000000" for a
    by (simp add: o rescaled_duration_def demo_engine_def AV_NOPTS_VALUE_def)
  have t: "getAVStream (dmx (demo_opened VIDEO ''no_duration.mp4'')) = Some 10"
    by (simp add: o getAVStream_def)
  from getDuration_first_available [OF c, of demo_engine] c cd rd t
  show ?thesis
    by (simp add: o)
qed

subsection \<open>Handles and indices\<close>

lemma handles_consistent_ctor: "handles_consistent (Demuxer_ctor t)"
  by (simp add: handles_consistent_def Demuxer_ctor_def)

lemma handles_consistent_close: "handles_consistent (dmx (close E s))"
  by (simp add: dmx_close handles_consistent_ctor)

lemma engine_ok_open:
  "engine_ok E \<Longrightarrow> avformat_open_input E w f = (ret, p, w') \<Longrightarrow> 0 \<le> ret \<Longrightarrow> p \<noteq> nullptr"
  unfolding engine_ok_def by (metis fst_conv snd_conv)

lemma engine_ok_best:
  "engine_ok E \<Longrightarrow> p \<noteq> nullptr \<Longrightarrow> av_find_best_stream E w p t = (i, w') \<Longrightarrow> 0 \<le> i \<Longrightarrow>
   streams E w' p i \<noteq> nullptr"
  unfolding engine_ok_def by (metis fst_conv snd_conv)

text \<open>
  The two lookups of \<^verbatim>\<open>open\<close> start without handles and with a context; each sets its
  handle exactly when its index is not negative.
\<close>

lemma find_video_consistent:
  assumes "engine_ok E" and "format_ctx (dmx s) \<noteq> nullptr" and "video_stream (dmx s) = nullptr"
  shows "(video_stream (dmx (find_video E s)) \<noteq> nullptr
            \<longleftrightarrow> 0 \<le> video_stream_index (dmx (find_video E s)))
         \<and> format_ctx (dmx (find_video E s)) = format_ctx (dmx s)
         \<and> audio_stream (dmx (find_video E s)) = audio_stream (dmx s)
         \<and> audio_stream_index (dmx (find_video E s)) = audio_stream_index (dmx s)"
proof (cases "av_find_best_stream E (world s) (format_ctx (dmx s)) AVMEDIA_TYPE_VIDEO")
  case (Pair i w)
  show ?thesis
  proof (cases "0 \<le> i")
    case True
    with engine_ok_best [OF assms(1,2) Pair] Pair show ?thesis
      by (simp add: find_video_def Let_def)
  next
    case False
    with Pair assms(3) show ?thesis
      by (simp add: find_video_def Let_def)
  qed
qed

lemma find_audio_consistent:
  assumes "engine_ok E" and "format_ctx (dmx s) \<noteq> nullptr" and "audio_stream (dmx s) = nullptr"
  shows "(audio_stream (dmx (find_audio E s)) \<noteq> nullptr
            \<longleftrightarrow> 0 \<le> audio_stream_index (dmx (find_audio E s)))
         \<and> format_ctx (dmx (find_audio E s)) = format_ctx (dmx s)
         \<and> video_stream (dmx (find_audio E s)) = video_stream (dmx s)
         \<and> video_stream_index (dmx (find_audio E s)) = video_stream_index (dmx s)"
proof (cases "av_find_best_stream E (world s) (format_ctx (dmx s)) AVMEDIA_TYPE_AUDIO")
  case (Pair i w)
  show ?thesis
  proof (cases "0 \<le> i")
    case True
    with engine_ok_best [OF assms(1,2) Pair] Pair show ?thesis
      by (simp add: find_audio_def Let_def)
  next
    case False
    with Pair assms(3) show ?thesis
      by (simp add: find_audio_def Let_def)
  qed
qed

text \<open>\<^verbatim>\<open>open\<close> in its three outcomes, for a non-empty path.\<close>

lemma open_cases:
  assumes "filename \<noteq> []"
  shows "open E filename s =
           (if open_status E filename s < 0
            then (False, (if format_ctx (dmx s) \<noteq> nullptr then close E s else s)
                    \<lparr>world := snd (snd (avformat_open_input E (open_world E s) filename)),
                      dmx := (dmx (if format_ctx (dmx s) \<noteq> nullptr then close E s else s))
                        \<lparr>format_ctx := fst (snd (avformat_open_input E (open_world E s) filename))\<rparr>\<rparr>)
            else if probe_status E filename s < 0 then (False, close E (probed E filename s))
            else (True, find_audio E (find_video E (probed E filename s))))"
proof (cases "format_ctx (dmx s) = nullptr")
  case True
  with assms show ?thesis
    by (simp add: open_def open_status_def probe_status_def open_world_def probed_def
          Let_def split: prod.splits)
next
  case False
  with assms show ?thesis
    by (simp add: open_def open_status_def probe_status_def open_world_def probed_def
          Let_def split: prod.splits)
qed

lemma probed_fields:
  "format_ctx (dmx (probed E filename s))
     = fst (snd (avformat_open_input E (open_world E s) filename))"
  "handles_consistent (dmx s) \<Longrightarrow> video_stream (dmx (probed E filename s)) = nullptr"
  "handles_consistent (dmx s) \<Longrightarrow> audio_stream (dmx (probed E filename s)) = nullptr"
  by (auto simp add: probed_def open_world_def close_def handles_consistent_def Let_def
        split: prod.splits)

lemma handles_consistent_open:
  assumes "engine_ok E" and "handles_consistent (dmx s)"
  shows "handles_consistent (dmx (snd (open E filename s)))"
proof (cases "filename = []")
  case True
  with assms(2) show ?thesis by (simp add: open_def)
next
  case False
  note ne = this
  show ?thesis
  proof (cases "open_status E filename s < 0")
    case True
    with assms(2) show ?thesis
      by (auto simp add: open_cases [OF ne] handles_consistent_def close_def Let_def)
  next
    case False
    note opened = this
    show ?thesis
    proof (cases "probe_status E filename s < 0")
      case True
      with opened show ?thesis
        by (simp add: open_cases [OF ne] handles_consistent_close)
    next
      case False
      let ?p = "probed E filename s"
      from opened have c: "format_ctx (dmx ?p) \<noteq> nullptr"
        using engine_ok_open [OF assms(1), of "open_world E s" filename]
        by (cases "avformat_open_input E (open_world E s) filename")
           (simp add: probed_fields(1) open_status_def)
      have v: "video_stream (dmx ?p) = nullptr" and a: "audio_stream (dmx ?p) = nullptr"
        using assms(2) by (simp_all add: probed_fields)
      note fv = find_video_consistent [OF assms(1) c v]
      from fv a c have a': "audio_stream (dmx (find_video E ?p)) = nullptr"
        and c': "format_ctx (dmx (find_video E ?p)) \<noteq> nullptr"
        by simp_all
      note fa = find_audio_consistent [OF assms(1) c' a']
      from fv fa c' have "handles_consistent (dmx (find_audio E (find_video E ?p)))"
        by (auto simp add: handles_consistent_def)
      with opened False show ?thesis
        by (simp add: open_cases [OF ne])
    qed
  qed
qed

lemma handles_consistent_eof:
  "(d')\<lparr>eof_file := b\<rparr> = d \<Longrightarrow> handles_consistent d \<Longrightarrow> handles_consistent d'"
  by (auto simp add: handles_consistent_def)

lemma reachable_consistent:
  assumes "engine_ok E" and "reachable E s"
  shows "handles_consistent (dmx s)"
  using assms(2)
proof (induction rule: reachable.induct)
  case (reach_ctor t w n)
  show ?case by (simp add: handles_consistent_ctor)
next
  case (reach_open s filename)
  then show ?case by (simp add: handles_consistent_open [OF assms(1)])
next
  case (reach_readPacket s r s')
  have "(dmx s')\<lparr>eof_file := eof_file (dmx s)\<rparr> = dmx s"
  proof (cases "format_ctx (dmx s) \<noteq> nullptr \<and> 0 \<le> getStreamIndex (dmx s)")
    case True
    with reach_readPacket.hyps(2) obtain n where
      n: "final_read E s n" "read_outcome E (getStreamIndex (dmx s)) s n = (r, s')"
      by (auto simp add: readPacket_running)
    show ?thesis by (rule final_read_outcome(3) [OF n])
  next
    case False
    then have "readPacket E s = Some (Inl NotInitialized, s)
               \<or> readPacket E s = Some (Inl NoValidStream, s)"
      using readPacket_not_running [of s E] by force
    with reach_readPacket.hyps(2) show ?thesis by auto
  qed
  with reach_readPacket.IH show ?case
    by (rule handles_consistent_eof [rotated])
next
  case (reach_seek s timestamp flags)
  have "(dmx (snd (seek E timestamp flags s)))\<lparr>eof_file := eof_file (dmx s)\<rparr> = dmx s"
    by (auto simp add: seek_def Let_def split: prod.splits)
  with reach_seek.IH show ?case
    by (rule handles_consistent_eof [rotated])
next
  case (reach_close s)
  show ?case by (rule handles_consistent_close)
qed

text \<open>
  Claim C9.  With a library that leaves a context after a successful
  \<^verbatim>\<open>avformat_open_input\<close> and whose best stream is an entry of the stream table, every
  state reached from the constructor by \<^verbatim>\<open>open\<close>, \<^verbatim>\<open>readPacket\<close>, \<^verbatim>\<open>seek\<close> and \<^verbatim>\<open>close\<close>
  has the video handle set exactly when the video index is not negative, the same for
  audio, and so \<^verbatim>\<open>getAVStream()\<close> is not null exactly when \<^verbatim>\<open>getStreamIndex()\<close> is not
  negative.
\<close>

theorem handles_match_indices:
  assumes "engine_ok E" and "reachable E s"
  shows "(video_stream (dmx s) \<noteq> nullptr \<longleftrightarrow> 0 \<le> video_stream_index (dmx s))
         \<and> (audio_stream (dmx s) \<noteq> nullptr \<longleftrightarrow> 0 \<le> audio_stream_index (dmx s))
         \<and> (getAVStream (dmx s) \<noteq> nullptr \<longleftrightarrow> 0 \<le> getStreamIndex (dmx s))"
  using reachable_consistent [OF assms]
  by (simp add: handles_consistent_def getAVStream_def getStreamIndex_def)

lemma engine_ok_demo: "engine_ok demo_engine"
  unfolding engine_ok_def
proof (intro conjI allI impI)
  fix w f
  assume "0 \<le> fst (avformat_open_input demo_engine w f)"
  then show "fst (snd (avformat_open_input demo_engine w f)) \<noteq> nullptr"
    by (simp add: demo_engine_def split: if_splits)
next
  fix w p and t :: AVMediaType
  show "streams demo_engine (snd (av_find_best_stream demo_engine w p t)) p
          (fst (av_find_best_stream demo_engine w p t)) \<noteq> nullptr"
    if "p \<noteq> nullptr \<and> 0 \<le> fst (av_find_best_stream demo_engine w p t)"
    using that by (cases t) (simp_all add: demo_engine_def split: if_splits)
qed

theorem handles_match_indices_witness:
  "engine_ok demo_engine
   \<and> reachable demo_engine (demo_opened AUDIO ''video_only.mp4'')
   \<and> video_stream (dmx (demo_opened AUDIO ''video_only.mp4'')) \<noteq> nullptr
   \<and> 0 \<le> video_stream_index (dmx (demo_opened AUDIO ''video_only.mp4''))
   \<and> audio_stream (dmx (demo_opened AUDIO ''video_only.mp4'')) = nullptr
   \<and> \<not> 0 \<le> audio_stream_index (dmx (demo_opened AUDIO ''video_only.mp4''))
   \<and> (getAVStream (dmx (demo_opened AUDIO ''video_only.mp4'')) \<noteq> nullptr
        \<longleftrightarrow> 0 \<le> getStreamIndex (dmx (demo_opened AUDIO ''video_only.mp4'')))"
proof -
  have r: "reachable demo_engine (demo_opened AUDIO ''video_only.mp4'')"
    unfolding demo_opened_def demo_init_def by (rule reach_open) (rule reach_ctor)
  have v: "video_stream (dmx (demo_opened AUDIO ''video_only.mp4'')) \<noteq> nullptr"
    and a: "audio_stream (dmx (demo_opened AUDIO ''video_only.mp4'')) = nullptr"
    by (simp_all add: demo_defs open_def find_video_def find_audio_def Let_def)
  from handles_match_indices [OF engine_ok_demo r] engine_ok_demo r v a
  show ?thesis by simp
qed

end
